theory Spec2Isabelle
  imports Main "HOL-Library.Stream"
begin

section \<open>The board of \<^verbatim>\<open>app/engine/grid.py\<close>\<close>

text \<open>
  The class \<^verbatim>\<open>Grid\<close> keeps a 9 by 5 table of optional object references
  (\<^verbatim>\<open>self.array\<close>), a list of tile objects (\<^verbatim>\<open>self.tiles\<close>) and writes
  the \<^verbatim>\<open>x\<close>, \<^verbatim>\<open>y\<close> attributes of the objects it stores. Objects are
  shared mutable Python objects, so the model has an explicit store: a reference is a
  number, and \<open>objs\<close> maps a reference to the current attribute values of its object.
  Two references are the same object exactly when they are the same number, which is
  what Python's default \<^verbatim>\<open>!=\<close> on objects compares.
\<close>

subsection \<open>Python lists and ranges\<close>

datatype py_error = IndexError

text \<open>
  \<^verbatim>\<open>xs[i]\<close>: a negative index counts from the end, and an index outside
  \<open>-len \<le> i < len\<close> raises \<^verbatim>\<open>IndexError\<close>.
\<close>

definition py_index :: "'a list \<Rightarrow> int \<Rightarrow> py_error + nat" where
  "py_index xs i =
     (let n = int (length xs); j = (if i < 0 then i + n else i)
      in if 0 \<le> j \<and> j < n then Inr (nat j) else Inl IndexError)"

definition py_get :: "'a list \<Rightarrow> int \<Rightarrow> py_error + 'a" where
  "py_get xs i = (case py_index xs i of Inl e \<Rightarrow> Inl e | Inr j \<Rightarrow> Inr (xs ! j))"

text \<open>\<^verbatim>\<open>range(a, b)\<close> as the list of its elements, and \<^verbatim>\<open>x in range(n)\<close>.\<close>

definition py_range :: "int \<Rightarrow> int \<Rightarrow> int list" where
  "py_range a b = [a..b - 1]"

definition in_range :: "int \<Rightarrow> int \<Rightarrow> bool" where
  "in_range x n = (0 \<le> x \<and> x < n)"

subsection \<open>Objects and the grid\<close>

type_synonym ref = nat

text \<open>
  Modelled from the spec: the classes \<^verbatim>\<open>GameObject\<close> and \<^verbatim>\<open>Ninja\<close> are imported
  from \<^verbatim>\<open>app.objects\<close> and are not part of this file. Of an object the grid uses
  the mutable integer attributes \<^verbatim>\<open>x\<close> and \<^verbatim>\<open>y\<close>, of a ninja also the
  integer \<^verbatim>\<open>move\<close>; objects are compared by reference.
\<close>

record game_object =
  obj_x :: int
  obj_y :: int

text \<open>A \<^verbatim>\<open>Ninja\<close> is a \<^verbatim>\<open>GameObject\<close> with a \<^verbatim>\<open>move\<close> attribute.\<close>

record ninja = game_object +
  obj_move :: int

record world =
  array :: "ref option list list"
  tiles :: "ref list"
  objs :: "ref \<Rightarrow> game_object"

text \<open>
  \<^verbatim>\<open>Grid.__init__\<close>: \<^verbatim>\<open>[[None] * 5 for _ in range(9)]\<close> and no tiles. The
  spawn ranges \<^verbatim>\<open>self.enemy_spawns\<close> are assigned here and nowhere else.
\<close>

definition init :: "(ref \<Rightarrow> game_object) \<Rightarrow> world" where
  "init h = \<lparr>array = replicate 9 (replicate 5 None), tiles = [], objs = h\<rparr>"

definition enemy_spawns :: "int list \<times> int list" where
  "enemy_spawns = (py_range 6 9, py_range 0 5)"

text \<open>The shape the constructor gives the table; no method changes it.\<close>

definition grid_shape :: "world \<Rightarrow> bool" where
  "grid_shape w = (length (array w) = 9 \<and> list_all (\<lambda>row. length row = 5) (array w))"

definition is_valid :: "int \<Rightarrow> int \<Rightarrow> bool" where
  "is_valid x y = (in_range x 9 \<and> in_range y 5)"

text \<open>
  \<^verbatim>\<open>__getitem__\<close>: the indexing happens only behind \<^verbatim>\<open>is_valid\<close>; the
  function falls off its end otherwise, which returns \<^verbatim>\<open>None\<close>.
\<close>

definition getitem :: "world \<Rightarrow> int \<times> int \<Rightarrow> py_error + ref option" where
  "getitem w index =
     (if is_valid (fst index) (snd index) then
        (case py_get (array w) (fst index) of
           Inl e \<Rightarrow> Inl e
         | Inr row \<Rightarrow> py_get row (snd index))
      else Inr None)"

text \<open>
  A method that mutates returns the world it leaves behind: \<open>Inr w'\<close> when it returns,
  \<open>Inl (e, w')\<close> when it raises \<open>e\<close>, with the mutations made before the raise.

  \<^verbatim>\<open>__setitem__\<close> indexes the table with no check, so Python's own list indexing
  decides: \<^verbatim>\<open>self.array[index[0]]\<close> is evaluated first, then the item of that
  row is assigned. The attributes of a stored object receive the index as given.
\<close>

type_synonym outcome = "(py_error \<times> world) + world"

definition setitem :: "world \<Rightarrow> int \<times> int \<Rightarrow> ref option \<Rightarrow> outcome" where
  "setitem w index v =
     (case py_index (array w) (fst index) of
        Inl e \<Rightarrow> Inl (e, w)
      | Inr i \<Rightarrow>
          (case py_index (array w ! i) (snd index) of
             Inl e \<Rightarrow> Inl (e, w)
           | Inr j \<Rightarrow>
               (let w' = w\<lparr>array := (array w)[i := (array w ! i)[j := v]]\<rparr>
                in case v of
                     None \<Rightarrow> Inr w'
                   | Some obj \<Rightarrow>
                       Inr (w'\<lparr>objs := (objs w')(obj :=
                              (objs w' obj)\<lparr>obj_x := fst index, obj_y := snd index\<rparr>)\<rparr>))))"

definition add :: "world \<Rightarrow> ref \<Rightarrow> outcome" where
  "add w obj = setitem w (obj_x (objs w obj), obj_y (objs w obj)) (Some obj)"

text \<open>
  \<^verbatim>\<open>coordinates\<close>: the two nested \<^verbatim>\<open>for\<close> loops, each a recursion over the
  elements of its range that are still to come. \<open>None\<close> means the loop ran to its end.
\<close>

fun coordinates_ys :: "world \<Rightarrow> ref \<Rightarrow> int \<Rightarrow> int list \<Rightarrow> py_error + (int \<times> int) option" where
  "coordinates_ys w obj x [] = Inr None"
| "coordinates_ys w obj x (y # ys) =
     (case getitem w (x, y) of
        Inl e \<Rightarrow> Inl e
      | Inr c \<Rightarrow> if c \<noteq> Some obj then coordinates_ys w obj x ys else Inr (Some (x, y)))"

fun coordinates_xs :: "world \<Rightarrow> ref \<Rightarrow> int list \<Rightarrow> py_error + (int \<times> int) option" where
  "coordinates_xs w obj [] = Inr None"
| "coordinates_xs w obj (x # xs) =
     (case coordinates_ys w obj x (py_range 0 5) of
        Inl e \<Rightarrow> Inl e
      | Inr (Some c) \<Rightarrow> Inr (Some c)
      | Inr None \<Rightarrow> coordinates_xs w obj xs)"

definition coordinates :: "world \<Rightarrow> ref \<Rightarrow> py_error + int \<times> int" where
  "coordinates w obj =
     (case coordinates_xs w obj (py_range 0 9) of
        Inl e \<Rightarrow> Inl e
      | Inr (Some c) \<Rightarrow> Inr c
      | Inr None \<Rightarrow> Inr (- 1, - 1))"

definition remove :: "world \<Rightarrow> ref \<Rightarrow> outcome" where
  "remove w obj =
     (case coordinates w obj of
        Inl e \<Rightarrow> Inl (e, w)
      | Inr c \<Rightarrow> setitem w c None)"

definition move :: "world \<Rightarrow> ref \<Rightarrow> int \<Rightarrow> int \<Rightarrow> outcome" where
  "move w obj x y =
     (case remove w obj of
        Inl e \<Rightarrow> Inl e
      | Inr w' \<Rightarrow> setitem w' (x, y) (Some obj))"

subsection \<open>Movement checks\<close>

definition can_move :: "world \<Rightarrow> int \<Rightarrow> int \<Rightarrow> py_error + bool" where
  "can_move w x y =
     (if \<not> in_range x 9 \<or> \<not> in_range y 5 then Inr False
      else (case getitem w (x, y) of Inl e \<Rightarrow> Inl e | Inr c \<Rightarrow> Inr (c = None)))"

text \<open>
  \<^verbatim>\<open>can_move_to_tile\<close> only reads its arguments: the ninja is passed as the
  values of its attributes, and no world is returned because the source assigns nothing.
\<close>

definition can_move_to_tile :: "world \<Rightarrow> ninja \<Rightarrow> int \<Rightarrow> int \<Rightarrow> py_error + bool" where
  "can_move_to_tile w n x y =
     (if \<not> in_range x 9 \<or> \<not> in_range y 5 then Inr False
      else (case can_move w x y of
              Inl e \<Rightarrow> Inl e
            | Inr ok \<Rightarrow>
                if \<not> ok then Inr False
                else (let distance = \<bar>x - obj_x n\<bar> + \<bar>y - obj_y n\<bar>
                      in Inr (distance \<le> obj_move n))))"

subsection \<open>Spawn search\<close>

text \<open>
  The global random source is an input: a stream of natural numbers, one consumed by
  each \<^verbatim>\<open>random.choice\<close>, which returns \<^verbatim>\<open>seq[randbelow(len(seq))]\<close>; the
  number drawn, reduced below the length, is that index. Both sequences of
  \<open>enemy_spawns\<close> are non-empty, so the \<^verbatim>\<open>IndexError\<close> of a choice from an
  empty sequence has no branch. The function returns the coordinate together with the
  random source as it leaves it.
\<close>

definition random_choice :: "int list \<Rightarrow> nat \<Rightarrow> int" where
  "random_choice seq r = seq ! (r mod length seq)"

fun enemy_spawn_loop :: "world \<Rightarrow> nat \<Rightarrow> nat stream \<Rightarrow> py_error + (int \<times> int) \<times> nat stream" where
  "enemy_spawn_loop w 0 rng = Inr ((- 1, - 1), rng)"
| "enemy_spawn_loop w (Suc k) rng =
     (let x = random_choice (fst enemy_spawns) (shd rng);
          y = random_choice (snd enemy_spawns) (shd (stl rng));
          rng' = stl (stl rng)
      in case can_move w x y of
           Inl e \<Rightarrow> Inl e
         | Inr ok \<Rightarrow> if ok then Inr ((x, y), rng') else enemy_spawn_loop w k rng')"

definition enemy_spawn_location :: "world \<Rightarrow> int \<Rightarrow> nat stream \<Rightarrow> py_error + (int \<times> int) \<times> nat stream" where
  "enemy_spawn_location w max_attempts rng = enemy_spawn_loop w (nat max_attempts) rng"

subsection \<open>Tiles and neighbourhoods\<close>

definition get_tile :: "world \<Rightarrow> int \<Rightarrow> int \<Rightarrow> ref option" where
  "get_tile w x y = find (\<lambda>tile. obj_x (objs w tile) = x \<and> obj_y (objs w tile) = y) (tiles w)"

text \<open>
  \<^verbatim>\<open>surrounding_tiles\<close> is a generator; the model is the list of what it yields,
  in order. Each \<^verbatim>\<open>continue\<close> skips to the next \<open>y\<close>.
\<close>

fun surrounding_ys :: "world \<Rightarrow> int \<Rightarrow> int \<Rightarrow> int \<Rightarrow> int list \<Rightarrow> ref option list" where
  "surrounding_ys w center_x center_y x [] = []"
| "surrounding_ys w center_x center_y x (y # ys) =
     (if \<not> is_valid x y then surrounding_ys w center_x center_y x ys
      else if x = center_x \<and> y = center_y then surrounding_ys w center_x center_y x ys
      else get_tile w x y # surrounding_ys w center_x center_y x ys)"

fun surrounding_xs :: "world \<Rightarrow> int \<Rightarrow> int \<Rightarrow> int list \<Rightarrow> int list \<Rightarrow> ref option list" where
  "surrounding_xs w center_x center_y y_range [] = []"
| "surrounding_xs w center_x center_y y_range (x # xs) =
     surrounding_ys w center_x center_y x y_range @ surrounding_xs w center_x center_y y_range xs"

definition surrounding_tiles :: "world \<Rightarrow> int \<Rightarrow> int \<Rightarrow> int \<Rightarrow> ref option list" where
  "surrounding_tiles w center_x center_y distance =
     (let x_range = py_range (center_x - distance) (center_x + distance + 1);
          y_range = py_range (center_y - distance) (center_y + distance + 1)
      in surrounding_xs w center_x center_y y_range x_range)"

subsection \<open>Auxiliary notions for the statements\<close>

text \<open>
  The index Python's list indexing selects for \<open>i\<close> in a list of length \<open>n\<close>, and the
  world a \<^verbatim>\<open>__setitem__\<close> that does not raise leaves behind (lemma \<open>setitem_in\<close>
  below derives it from \<open>setitem\<close>).
\<close>

definition wrapped :: "int \<Rightarrow> int \<Rightarrow> int" where
  "wrapped n i = (if i < 0 then i + n else i)"

definition stored :: "world \<Rightarrow> int \<times> int \<Rightarrow> ref option \<Rightarrow> world" where
  "stored w index v =
     (let i = nat (wrapped 9 (fst index)); j = nat (wrapped 5 (snd index));
          w' = w\<lparr>array := (array w)[i := (array w ! i)[j := v]]\<rparr>
      in case v of
           None \<Rightarrow> w'
         | Some obj \<Rightarrow>
             w'\<lparr>objs := (objs w)(obj := (objs w obj)\<lparr>obj_x := fst index, obj_y := snd index\<rparr>)\<rparr>)"

text \<open>The world an operation leaves behind, whether it returned or raised.\<close>

definition final :: "outcome \<Rightarrow> world" where
  "final r = (case r of Inl (e, w) \<Rightarrow> w | Inr w \<Rightarrow> w)"

text \<open>The coordinates of the table in row-major order: \<open>x\<close> outer, \<open>y\<close> inner.\<close>

definition all_coordinates :: "(int \<times> int) list" where
  "all_coordinates = List.product (py_range 0 9) (py_range 0 5)"

text \<open>
  The invariant of the table: no object is read at two different coordinates. Every
  read of an object is at a coordinate of \<open>all_coordinates\<close>, so the definition
  ranges over that list and can be evaluated (lemma \<open>at_most_once_iff\<close> states it
  over all objects and all coordinates).
\<close>

definition at_most_once :: "world \<Rightarrow> bool" where
  "at_most_once w =
     (\<forall>c1\<in>set all_coordinates. \<forall>c2\<in>set all_coordinates.
        getitem w c1 = getitem w c2 \<longrightarrow> getitem w c1 = Inr None \<or> c1 = c2)"

text \<open>
  The \<open>k\<close>-th coordinate \<open>enemy_spawn_location\<close> draws from a random source: its
  \<open>x\<close> from the number at position \<open>2 k\<close>, its \<open>y\<close> from the one at \<open>2 k + 1\<close>.
  The spawn zone is \<open>x\<close> in 6..8, \<open>y\<close> in 0..4, 15 cells.
\<close>

definition candidate :: "nat stream \<Rightarrow> nat \<Rightarrow> int \<times> int" where
  "candidate rng k =
     (random_choice (fst enemy_spawns) (rng !! (2 * k)),
      random_choice (snd enemy_spawns) (rng !! (2 * k + 1)))"

definition spawn_zone :: "(int \<times> int) list" where
  "spawn_zone = List.product [6..8] [0..4]"

text \<open>
  The coordinates the claim about \<open>surrounding_tiles\<close> speaks of: the square around a
  centre, \<open>x\<close> outer and \<open>y\<close> inner; the coordinates the yielded tiles carry in their
  attributes (none for a yielded \<^verbatim>\<open>None\<close>); and the state of the tile list after
  \<^verbatim>\<open>initialize_tiles\<close> that the claim relies on: every coordinate of the table has a
  tile.
\<close>

definition square :: "int \<Rightarrow> int \<Rightarrow> int \<Rightarrow> (int \<times> int) list" where
  "square cx cy d = List.product [cx - d..cx + d] [cy - d..cy + d]"

definition tile_coordinates :: "world \<Rightarrow> ref option list \<Rightarrow> (int \<times> int) option list" where
  "tile_coordinates w ts =
     map (map_option (\<lambda>tile. (obj_x (objs w tile), obj_y (objs w tile)))) ts"

definition tiles_populated :: "world \<Rightarrow> bool" where
  "tiles_populated w = list_all (\<lambda>c. get_tile w (fst c) (snd c) \<noteq> None) all_coordinates"

text \<open>The exception an operation raised, if any.\<close>

definition raised :: "outcome \<Rightarrow> py_error option" where
  "raised r = (case r of Inl (e, w) \<Rightarrow> Some e | Inr w \<Rightarrow> None)"

subsection \<open>Concrete boards\<close>

text \<open>
  A board as \<^verbatim>\<open>initialize_tiles\<close> leaves it: 45 tile objects, numbered 0 to 44, the
  tile of \<open>(x, y)\<close> being object \<open>5 x + y\<close> with attributes \<open>x\<close> and \<open>y\<close>; the
  table is empty. \<open>board_corner\<close> has one more object, 50, in the last cell \<open>(8, 4)\<close>.
\<close>

definition tiles_store :: "ref \<Rightarrow> game_object" where
  "tiles_store r = \<lparr>obj_x = int (r div 5), obj_y = int (r mod 5)\<rparr>"

definition empty_board :: world where
  "empty_board = (init tiles_store)\<lparr>tiles := [0..<45]\<rparr>"

definition board_corner :: world where
  "board_corner =
     empty_board\<lparr>array := replicate 8 (replicate 5 None) @ [[None, None, None, None, Some 50]],
                 objs := tiles_store(50 := \<lparr>obj_x = 8, obj_y = 4\<rparr>)\<rparr>"

text \<open>\<open>board_full\<close> has the objects 50 to 64 in the 15 cells of the spawn zone.\<close>

definition board_full :: world where
  "board_full =
     empty_board\<lparr>array := replicate 6 (replicate 5 None) @
                   [[Some 50, Some 51, Some 52, Some 53, Some 54],
                    [Some 55, Some 56, Some 57, Some 58, Some 59],
                    [Some 60, Some 61, Some 62, Some 63, Some 64]]\<rparr>"

section \<open>Python indexing on a table of the constructor's shape\<close>

lemma py_index_in:
  "- int (length xs) \<le> i \<Longrightarrow> i < int (length xs) \<Longrightarrow>
   py_index xs i = Inr (nat (if i < 0 then i + int (length xs) else i))"
  by (simp add: py_index_def Let_def)

lemma py_index_out:
  "i < - int (length xs) \<or> int (length xs) \<le> i \<Longrightarrow> py_index xs i = Inl IndexError"
  by (auto simp: py_index_def Let_def)

lemma grid_shape_init: "grid_shape (init h)"
  by (simp add: grid_shape_def init_def list_all_length)

lemma grid_shape_row:
  "grid_shape w \<Longrightarrow> i < 9 \<Longrightarrow> length (array w ! i) = 5"
  by (simp add: grid_shape_def list_all_length)

lemma getitem_shape:
  "grid_shape w \<Longrightarrow>
   getitem w (x, y) = Inr (if is_valid x y then array w ! nat x ! nat y else None)"
  by (auto simp: getitem_def py_get_def py_index_in is_valid_def in_range_def
        grid_shape_def list_all_length)

lemma setitem_in:
  assumes "grid_shape w" "- 9 \<le> x" "x < 9" "- 5 \<le> y" "y < 5"
  shows "setitem w (x, y) v = Inr (stored w (x, y) v)"
proof -
  have i: "py_index (array w) x = Inr (nat (wrapped 9 x))"
    using assms by (simp add: py_index_in grid_shape_def wrapped_def)
  have "nat (wrapped 9 x) < 9" using assms by (auto simp: wrapped_def)
  then have "length (array w ! nat (wrapped 9 x)) = 5"
    using assms(1) by (rule grid_shape_row[rotated])
  then have j: "py_index (array w ! nat (wrapped 9 x)) y = Inr (nat (wrapped 5 y))"
    using assms by (simp add: py_index_in wrapped_def)
  show ?thesis
    by (simp add: setitem_def i j stored_def Let_def split: option.split)
qed

lemma setitem_out:
  assumes "grid_shape w" "x < - 9 \<or> 9 \<le> x \<or> y < - 5 \<or> 5 \<le> y"
  shows "setitem w (x, y) v = Inl (IndexError, w)"
proof (cases "x < - 9 \<or> 9 \<le> x")
  case True
  then have "py_index (array w) x = Inl IndexError"
    using assms(1) by (intro py_index_out) (simp add: grid_shape_def)
  then show ?thesis by (simp add: setitem_def)
next
  case False
  then have i: "py_index (array w) x = Inr (nat (wrapped 9 x))"
    using assms by (simp add: py_index_in grid_shape_def wrapped_def)
  have "nat (wrapped 9 x) < 9" using False by (auto simp: wrapped_def)
  then have "length (array w ! nat (wrapped 9 x)) = 5"
    using assms(1) by (rule grid_shape_row[rotated])
  then have "py_index (array w ! nat (wrapped 9 x)) y = Inl IndexError"
    using assms(2) False by (intro py_index_out) simp
  then show ?thesis by (simp add: setitem_def i)
qed

lemma stored_tiles: "tiles (stored w c v) = tiles w"
  by (simp add: stored_def Let_def split: option.split)

lemma stored_array:
  "array (stored w c v) =
   (array w)[nat (wrapped 9 (fst c)) :=
     (array w ! nat (wrapped 9 (fst c)))[nat (wrapped 5 (snd c)) := v]]"
  by (simp add: stored_def Let_def split: option.split)

lemma stored_objs:
  "objs (stored w c v) =
   (case v of None \<Rightarrow> objs w
    | Some obj \<Rightarrow> (objs w)(obj := (objs w obj)\<lparr>obj_x := fst c, obj_y := snd c\<rparr>))"
  by (simp add: stored_def Let_def split: option.split)

lemma stored_shape: "grid_shape w \<Longrightarrow> grid_shape (stored w c v)"
proof -
  assume s: "grid_shape w"
  define i where "i = nat (wrapped 9 (fst c))"
  define j where "j = nat (wrapped 5 (snd c))"
  have "length (((array w)[i := (array w ! i)[j := v]]) ! k) = 5" if "k < 9" for k
  proof (cases "i < 9 \<and> k = i")
    case True
    then show ?thesis using s by (simp add: grid_shape_def list_all_length)
  next
    case False
    moreover have "length (array w) = 9" using s by (simp add: grid_shape_def)
    ultimately have "((array w)[i := (array w ! i)[j := v]]) ! k = array w ! k"
      using that by (cases "i < length (array w)") (auto simp: nth_list_update)
    then show ?thesis using s that by (simp add: grid_shape_def list_all_length)
  qed
  then show ?thesis
    using s by (simp add: grid_shape_def list_all_length stored_array i_def j_def)
qed

lemma nth_nth_update:
  "i < length xss \<Longrightarrow> j < length (xss ! i) \<Longrightarrow>
   (xss[i := (xss ! i)[j := v]]) ! i' ! j' = (if i' = i \<and> j' = j then v else xss ! i' ! j')"
  by (cases "i' = i") (auto simp: nth_list_update)

lemma stored_getitem:
  assumes "grid_shape w" "- 9 \<le> x" "x < 9" "- 5 \<le> y" "y < 5"
  shows "getitem (stored w (x, y) v) (x', y') =
         (if x' = wrapped 9 x \<and> y' = wrapped 5 y then Inr v else getitem w (x', y'))"
proof -
  have v: "is_valid (wrapped 9 x) (wrapped 5 y)"
    using assms by (simp add: is_valid_def in_range_def wrapped_def)
  show ?thesis
  proof (cases "is_valid x' y'")
    case False
    with v show ?thesis
      by (auto simp: getitem_shape[OF assms(1)] getitem_shape[OF stored_shape[OF assms(1)]])
  next
    case True
    then have b: "nat x' < 9" "nat y' < 5" "0 \<le> x'" "0 \<le> y'"
      by (auto simp: is_valid_def in_range_def)
    have l: "length (array w) = 9" using assms(1) by (simp add: grid_shape_def)
    have r: "length (array w ! nat (wrapped 9 x)) = 5"
      using assms by (intro grid_shape_row) (auto simp: wrapped_def)
    have w9: "0 \<le> wrapped 9 x" "0 \<le> wrapped 5 y" using assms by (simp_all add: wrapped_def)
    have lt: "nat (wrapped 9 x) < length (array w)"
      "nat (wrapped 5 y) < length (array w ! nat (wrapped 9 x))"
      using assms l r by (auto simp: wrapped_def)
    show ?thesis
      using True b w9
      by (auto simp: getitem_shape[OF assms(1)] getitem_shape[OF stored_shape[OF assms(1)]]
            stored_array nth_nth_update[OF lt])
  qed
qed

lemma grid_shape_empty_board: "grid_shape empty_board"
  by code_simp

lemma grid_shape_board_corner: "grid_shape board_corner"
  by code_simp

section \<open>Locating an object\<close>

lemma find_append_case:
  "find P (xs @ ys) = (case find P xs of None \<Rightarrow> find P ys | Some x \<Rightarrow> Some x)"
  by (induction xs) auto

lemma coordinates_ys_find:
  "grid_shape w \<Longrightarrow>
   coordinates_ys w obj x ys =
   Inr (find (\<lambda>c. getitem w c = Inr (Some obj)) (map (Pair x) ys))"
  by (induction ys) (auto simp: getitem_shape)

lemma coordinates_xs_find:
  "grid_shape w \<Longrightarrow>
   coordinates_xs w obj xs =
   Inr (find (\<lambda>c. getitem w c = Inr (Some obj)) (List.product xs (py_range 0 5)))"
  by (induction xs) (auto simp: coordinates_ys_find find_append_case split: option.split)

lemma coordinates_find:
  "grid_shape w \<Longrightarrow>
   coordinates w obj =
   Inr (case find (\<lambda>c. getitem w c = Inr (Some obj)) all_coordinates of
          None \<Rightarrow> (- 1, - 1) | Some c \<Rightarrow> c)"
  by (simp add: coordinates_def coordinates_xs_find all_coordinates_def split: option.split)

lemma set_all_coordinates: "set all_coordinates = {(x, y). is_valid x y}"
  by (auto simp: all_coordinates_def py_range_def is_valid_def in_range_def)

lemma getitem_Some_valid: "getitem w c = Inr (Some obj) \<Longrightarrow> c \<in> set all_coordinates"
  by (cases c) (auto simp: set_all_coordinates getitem_def split: if_splits)

lemma coordinates_cases:
  assumes "grid_shape w"
  shows "(coordinates w obj = Inr (- 1, - 1) \<and> (\<forall>c. getitem w c \<noteq> Inr (Some obj))) \<or>
         (\<exists>c. coordinates w obj = Inr c \<and> c \<in> set all_coordinates \<and>
              getitem w c = Inr (Some obj))"
proof (cases "find (\<lambda>c. getitem w c = Inr (Some obj)) all_coordinates")
  case None
  then have "\<forall>c. getitem w c \<noteq> Inr (Some obj)"
    using getitem_Some_valid by (fastforce simp: find_None_iff)
  moreover have "coordinates w obj = Inr (- 1, - 1)"
    by (simp add: coordinates_find[OF assms] None)
  ultimately show ?thesis by blast
next
  case (Some c)
  then have "c \<in> set all_coordinates \<and> getitem w c = Inr (Some obj)"
    by (auto simp: find_Some_iff)
  moreover have "coordinates w obj = Inr c"
    by (simp add: coordinates_find[OF assms] Some)
  ultimately show ?thesis by blast
qed

lemma in_table_iff:
  assumes "grid_shape w"
  shows "(\<exists>row\<in>set (array w). v \<in> set row) \<longleftrightarrow>
         (\<exists>c\<in>set all_coordinates. getitem w c = Inr v)"
proof
  assume "\<exists>row\<in>set (array w). v \<in> set row"
  then obtain i j where "i < length (array w)" "j < length (array w ! i)" "array w ! i ! j = v"
    by (metis in_set_conv_nth)
  moreover from this assms have "i < 9" "j < 5"
    by (simp_all add: grid_shape_def list_all_length)
  ultimately have "is_valid (int i) (int j)" "getitem w (int i, int j) = Inr v"
    by (simp_all add: getitem_shape[OF assms] is_valid_def in_range_def)
  then show "\<exists>c\<in>set all_coordinates. getitem w c = Inr v"
    by (auto simp: set_all_coordinates)
next
  assume "\<exists>c\<in>set all_coordinates. getitem w c = Inr v"
  then obtain x y where xy: "is_valid x y" "getitem w (x, y) = Inr v"
    by (auto simp: set_all_coordinates)
  then have "nat x < length (array w)" "nat y < length (array w ! nat x)"
    "array w ! nat x ! nat y = v"
    using assms
    by (auto simp: getitem_shape[OF assms] is_valid_def in_range_def grid_shape_def
          list_all_length)
  then show "\<exists>row\<in>set (array w). v \<in> set row"
    by (metis nth_mem)
qed

lemma getitem_objs_update: "getitem (w\<lparr>objs := h\<rparr>) c = getitem w c"
  by (simp add: getitem_def)

lemma coordinates_ys_objs:
  "coordinates_ys (w\<lparr>objs := h\<rparr>) obj x ys = coordinates_ys w obj x ys"
  by (induction ys) (auto simp: getitem_objs_update split: sum.split)

lemma coordinates_xs_objs:
  "coordinates_xs (w\<lparr>objs := h\<rparr>) obj xs = coordinates_xs w obj xs"
  by (induction xs) (auto simp: coordinates_ys_objs split: sum.split option.split)

text \<open>
  C7. On a table of the constructor's shape, \<open>coordinates\<close> returns the first
  coordinate, in row-major order (\<open>x\<close> outer over 0..8, \<open>y\<close> inner over 0..4), whose
  cell holds the object, and the sentinel \<open>(-1, -1)\<close> when there is none; it returns
  the sentinel exactly when no cell of the table holds the object; and the answer
  depends on the table only: replacing the attributes of all objects by any others
  does not change it.
\<close>

theorem coordinates_first_match:
  "grid_shape w \<Longrightarrow>
   coordinates w obj =
     Inr (case find (\<lambda>c. getitem w c = Inr (Some obj)) (List.product [0..8] [0..4]) of
            Some c \<Rightarrow> c | None \<Rightarrow> (- 1, - 1)) \<and>
   (coordinates w obj = Inr (- 1, - 1) \<longleftrightarrow> \<not> (\<exists>row\<in>set (array w). Some obj \<in> set row)) \<and>
   coordinates (w\<lparr>objs := h\<rparr>) obj = coordinates w obj"
proof (intro conjI)
  assume s: "grid_shape w"
  have a: "all_coordinates = List.product [0..8] [0..4]"
    by (simp add: all_coordinates_def py_range_def)
  show "coordinates w obj =
     Inr (case find (\<lambda>c. getitem w c = Inr (Some obj)) (List.product [0..8] [0..4]) of
            Some c \<Rightarrow> c | None \<Rightarrow> (- 1, - 1))"
    by (simp add: coordinates_find[OF s] a split: option.split)
  have "(- 1, - 1) \<notin> set all_coordinates"
    by (simp add: set_all_coordinates is_valid_def in_range_def)
  then have "coordinates w obj = Inr (- 1, - 1) \<longleftrightarrow> (\<forall>c. getitem w c \<noteq> Inr (Some obj))"
    using coordinates_cases[OF s, of obj] by auto
  also have "\<dots> \<longleftrightarrow> \<not> (\<exists>c\<in>set all_coordinates. getitem w c = Inr (Some obj))"
    using getitem_Some_valid by blast
  finally show "coordinates w obj = Inr (- 1, - 1) \<longleftrightarrow>
      \<not> (\<exists>row\<in>set (array w). Some obj \<in> set row)"
    by (simp add: in_table_iff[OF s])
  show "coordinates (w\<lparr>objs := h\<rparr>) obj = coordinates w obj"
    by (simp add: coordinates_def coordinates_xs_objs)
qed

theorem coordinates_first_match_witness:
  "grid_shape board_corner \<and>
   coordinates board_corner 50 = Inr (8, 4) \<and>
   coordinates (board_corner\<lparr>objs := tiles_store\<rparr>) 50 = Inr (8, 4)"
proof -
  have s: "grid_shape board_corner" by code_simp
  have f: "find (\<lambda>c. getitem board_corner c = Inr (Some 50)) (List.product [0..8] [0..4]) =
           Some (8, 4)"
    by code_simp
  from coordinates_first_match [OF s, of 50 tiles_store] f s show ?thesis by simp
qed

section \<open>Removing an object that is not on the board\<close>

text \<open>
  C1 (the code departs from the claim). \<open>remove\<close> passes whatever \<open>coordinates\<close>
  returns to \<^verbatim>\<open>__setitem__\<close>. For an object that is in no cell this is the sentinel
  \<open>(-1, -1)\<close>, which Python's indexing reads as the last row and the last column: on
  \<open>board_corner\<close>, where object 50 is in cell \<open>(8, 4)\<close> and object 51 is in no cell,
  \<open>remove\<close> of 51 returns without raising and has emptied cell \<open>(8, 4)\<close>.
\<close>

theorem remove_absent_clears_last_cell:
  "getitem board_corner (8, 4) = Inr (Some 50) \<and>
   coordinates board_corner 51 = Inr (- 1, - 1) \<and>
   raised (remove board_corner 51) = None \<and>
   getitem (final (remove board_corner 51)) (8, 4) = Inr None"
  by code_simp

section \<open>Storing into a cell\<close>

text \<open>
  C8. For every valid coordinate \<open>(x, y)\<close> and every object, \<^verbatim>\<open>__setitem__\<close> of the
  object at \<open>(x, y)\<close> returns, and in the world it leaves \<^verbatim>\<open>__getitem__\<close> at
  \<open>(x, y)\<close> returns the object and the object's attributes are \<open>x\<close> and \<open>y\<close>.
\<close>

theorem setitem_then_getitem:
  "grid_shape w \<Longrightarrow> 0 \<le> x \<and> x \<le> 8 \<and> 0 \<le> y \<and> y \<le> 4 \<Longrightarrow>
   \<exists>w'. setitem w (x, y) (Some obj) = Inr w' \<and>
        getitem w' (x, y) = Inr (Some obj) \<and>
        obj_x (objs w' obj) = x \<and> obj_y (objs w' obj) = y"
  by (simp add: setitem_in stored_getitem stored_objs wrapped_def)

theorem setitem_then_getitem_witness:
  "grid_shape empty_board \<and>
   (\<exists>w'. setitem empty_board (2, 3) (Some 50) = Inr w' \<and>
         getitem w' (2, 3) = Inr (Some 50) \<and>
         obj_x (objs w' 50) = 2 \<and> obj_y (objs w' 50) = 3)"
  using setitem_then_getitem [OF grid_shape_empty_board, of 2 3 50] grid_shape_empty_board
  by simp

text \<open>
  C10. For every valid coordinate \<open>(x, y)\<close> and every value \<open>v\<close> (an object or none),
  \<^verbatim>\<open>__setitem__\<close> returns and leaves a table of the same shape in which every read
  at a coordinate other than \<open>(x, y)\<close> gives what it gave before; the tile list is
  unchanged; and when \<open>v\<close> is none the attributes of every object are unchanged.
\<close>

theorem setitem_frame:
  "grid_shape w \<Longrightarrow> 0 \<le> x \<and> x \<le> 8 \<and> 0 \<le> y \<and> y \<le> 4 \<Longrightarrow>
   \<exists>w'. setitem w (x, y) v = Inr w' \<and>
        grid_shape w' \<and>
        (\<forall>c. c \<noteq> (x, y) \<longrightarrow> getitem w' c = getitem w c) \<and>
        tiles w' = tiles w \<and>
        (v = None \<longrightarrow> objs w' = objs w)"
  by (auto simp: setitem_in stored_getitem stored_objs stored_tiles stored_shape wrapped_def)

theorem setitem_frame_witness:
  "grid_shape board_corner \<and>
   (\<exists>w'. setitem board_corner (2, 3) None = Inr w' \<and>
         grid_shape w' \<and>
         getitem w' (8, 4) = getitem board_corner (8, 4) \<and>
         tiles w' = tiles board_corner \<and>
         objs w' = objs board_corner)"
  using setitem_frame [OF grid_shape_board_corner, of 2 3 None] grid_shape_board_corner
  by auto

section \<open>Movement checks\<close>

lemma can_move_shape:
  "grid_shape w \<Longrightarrow> can_move w x y = Inr (is_valid x y \<and> getitem w (x, y) = Inr None)"
  by (auto simp: can_move_def getitem_shape is_valid_def)

text \<open>
  C4. \<open>can_move_to_tile\<close> returns (it does not raise), and it returns true exactly
  when the target is in range (\<open>x\<close> in 0..8, \<open>y\<close> in 0..4), the cell at the target is
  empty and the Manhattan distance from the ninja's position is at most its move
  budget. The function is a pure function of the world and the ninja's attributes.
\<close>

theorem can_move_to_tile_iff:
  "grid_shape w \<Longrightarrow>
   can_move_to_tile w n x y =
   Inr ((0 \<le> x \<and> x \<le> 8 \<and> 0 \<le> y \<and> y \<le> 4) \<and> getitem w (x, y) = Inr None \<and>
        \<bar>x - obj_x n\<bar> + \<bar>y - obj_y n\<bar> \<le> obj_move n)"
  by (auto simp: can_move_to_tile_def can_move_shape is_valid_def in_range_def Let_def)

theorem can_move_to_tile_iff_witness:
  "grid_shape board_corner \<and>
   can_move_to_tile board_corner \<lparr>obj_x = 0, obj_y = 0, obj_move = 2\<rparr> 2 0 = Inr True \<and>
   can_move_to_tile board_corner \<lparr>obj_x = 0, obj_y = 0, obj_move = 2\<rparr> 3 0 = Inr False \<and>
   can_move_to_tile board_corner \<lparr>obj_x = 7, obj_y = 4, obj_move = 2\<rparr> 8 4 = Inr False"
proof -
  have g: "getitem board_corner (2, 0) = Inr None" "getitem board_corner (8, 4) = Inr (Some 50)"
    by code_simp+
  show ?thesis
    using can_move_to_tile_iff [OF grid_shape_board_corner,
        of "\<lparr>obj_x = 0, obj_y = 0, obj_move = 2\<rparr>" 2 0]
      can_move_to_tile_iff [OF grid_shape_board_corner,
        of "\<lparr>obj_x = 0, obj_y = 0, obj_move = 2\<rparr>" 3 0]
      can_move_to_tile_iff [OF grid_shape_board_corner,
        of "\<lparr>obj_x = 7, obj_y = 4, obj_move = 2\<rparr>" 8 4]
      g grid_shape_board_corner
    by simp
qed

section \<open>Each object in at most one cell\<close>

lemma at_most_once_iff:
  assumes "grid_shape w"
  shows "at_most_once w \<longleftrightarrow>
         (\<forall>obj c1 c2. getitem w c1 = Inr (Some obj) \<and> getitem w c2 = Inr (Some obj) \<longrightarrow> c1 = c2)"
proof
  assume a: "at_most_once w"
  show "\<forall>obj c1 c2. getitem w c1 = Inr (Some obj) \<and> getitem w c2 = Inr (Some obj) \<longrightarrow> c1 = c2"
  proof (intro allI impI)
    fix obj c1 c2
    assume h: "getitem w c1 = Inr (Some obj) \<and> getitem w c2 = Inr (Some obj)"
    then have "c1 \<in> set all_coordinates" "c2 \<in> set all_coordinates"
      by (auto dest: getitem_Some_valid)
    with a h show "c1 = c2" unfolding at_most_once_def by fastforce
  qed
next
  assume r: "\<forall>obj c1 c2. getitem w c1 = Inr (Some obj) \<and> getitem w c2 = Inr (Some obj) \<longrightarrow> c1 = c2"
  show "at_most_once w"
    unfolding at_most_once_def
  proof (intro ballI impI)
    fix c1 c2
    assume e: "getitem w c1 = getitem w c2"
    obtain v where v: "getitem w c1 = Inr v"
      using getitem_shape[OF assms, of "fst c1" "snd c1"] by simp
    show "getitem w c1 = Inr None \<or> c1 = c2"
    proof (cases v)
      case None
      with v show ?thesis by simp
    next
      case (Some obj)
      with v e r show ?thesis by metis
    qed
  qed
qed

lemma stored_at_most_once:
  assumes s: "grid_shape w" and a: "at_most_once w"
    and b: "- 9 \<le> x" "x < 9" "- 5 \<le> y" "y < 5"
    and f: "v = None \<or> (\<forall>c. getitem w c = Inr v \<longrightarrow> c = (wrapped 9 x, wrapped 5 y))"
  shows "at_most_once (stored w (x, y) v)"
proof -
  have r: "getitem w c1 = Inr (Some obj) \<Longrightarrow> getitem w c2 = Inr (Some obj) \<Longrightarrow> c1 = c2"
    for obj c1 c2
    using a at_most_once_iff[OF s] by blast
  have "c1 = c2"
    if h: "getitem (stored w (x, y) v) c1 = Inr (Some obj)"
          "getitem (stored w (x, y) v) c2 = Inr (Some obj)" for obj c1 c2
  proof -
    obtain x1 y1 x2 y2 where c: "c1 = (x1, y1)" "c2 = (x2, y2)"
      by (cases c1, cases c2) blast
    from h show ?thesis
      unfolding c stored_getitem[OF s b]
      using f r by (auto split: if_splits)
  qed
  then show ?thesis
    using at_most_once_iff[OF stored_shape[OF s]] by blast
qed

lemma remove_stored:
  assumes s: "grid_shape w"
  shows "\<exists>x y. remove w obj = Inr (stored w (x, y) None) \<and>
           - 9 \<le> x \<and> x < 9 \<and> - 5 \<le> y \<and> y < 5 \<and>
           ((x, y) = (- 1, - 1) \<and> (\<forall>c. getitem w c \<noteq> Inr (Some obj)) \<or>
            getitem w (x, y) = Inr (Some obj) \<and> is_valid x y)"
  using coordinates_cases[OF s, of obj]
proof
  assume "coordinates w obj = Inr (- 1, - 1) \<and> (\<forall>c. getitem w c \<noteq> Inr (Some obj))"
  then show ?thesis
    by (intro exI[of _ "- 1"]) (simp add: remove_def setitem_in[OF s])
next
  assume "\<exists>c. coordinates w obj = Inr c \<and> c \<in> set all_coordinates \<and> getitem w c = Inr (Some obj)"
  then obtain x y where c: "coordinates w obj = Inr (x, y)" "is_valid x y"
    "getitem w (x, y) = Inr (Some obj)"
    by (auto simp: set_all_coordinates)
  then have b: "- 9 \<le> x" "x < 9" "- 5 \<le> y" "y < 5"
    by (simp_all add: is_valid_def in_range_def)
  show ?thesis
    by (intro exI[of _ x] exI[of _ y]) (simp add: remove_def c setitem_in[OF s b] b)
qed

text \<open>The table keeps the shape the constructor gave it, whatever is called.\<close>

lemma mutations_keep_grid_shape:
  assumes "grid_shape w"
  shows "grid_shape (final (setitem w (x, y) v))" "grid_shape (final (add w obj))"
    "grid_shape (final (remove w obj))" "grid_shape (final (move w obj x y))"
proof -
  have k: "grid_shape (final (setitem u (p, q) t))" if "grid_shape u" for u p q t
  proof (cases "- 9 \<le> p \<and> p < 9 \<and> - 5 \<le> q \<and> q < 5")
    case True
    then show ?thesis using that by (simp add: setitem_in final_def stored_shape)
  next
    case False
    then have "setitem u (p, q) t = Inl (IndexError, u)"
      using that by (intro setitem_out) auto
    then show ?thesis using that by (simp add: final_def)
  qed
  show "grid_shape (final (setitem w (x, y) v))" by (rule k[OF assms])
  show "grid_shape (final (add w obj))" by (simp add: add_def k[OF assms])
  obtain p q where r: "remove w obj = Inr (stored w (p, q) None)"
    using remove_stored[OF assms, of obj] by blast
  then show "grid_shape (final (remove w obj))"
    by (simp add: final_def stored_shape[OF assms])
  have "move w obj x y = setitem (stored w (p, q) None) (x, y) (Some obj)"
    by (simp add: move_def r)
  then show "grid_shape (final (move w obj x y))"
    by (simp add: k[OF stored_shape[OF assms]])
qed

lemma remove_effect:
  assumes s: "grid_shape w" and a: "at_most_once w"
  shows "\<exists>w'. remove w obj = Inr w' \<and> grid_shape w' \<and> at_most_once w' \<and>
              (\<forall>c. getitem w' c \<noteq> Inr (Some obj))"
proof -
  obtain x y where r: "remove w obj = Inr (stored w (x, y) None)"
    and b: "- 9 \<le> x" "x < 9" "- 5 \<le> y" "y < 5"
    and d: "(x, y) = (- 1, - 1) \<and> (\<forall>c. getitem w c \<noteq> Inr (Some obj)) \<or>
            getitem w (x, y) = Inr (Some obj) \<and> is_valid x y"
    using remove_stored[OF s, of obj] by blast
  have u: "getitem w c1 = Inr (Some obj) \<Longrightarrow> getitem w c2 = Inr (Some obj) \<Longrightarrow> c1 = c2"
    for c1 c2
    using a at_most_once_iff[OF s] by blast
  have "getitem (stored w (x, y) None) c \<noteq> Inr (Some obj)" for c
  proof (cases c)
    case (Pair x' y')
    from d show ?thesis
    proof
      assume "(x, y) = (- 1, - 1) \<and> (\<forall>c. getitem w c \<noteq> Inr (Some obj))"
      then show ?thesis unfolding Pair stored_getitem[OF s b] by simp
    next
      assume v: "getitem w (x, y) = Inr (Some obj) \<and> is_valid x y"
      then have "wrapped 9 x = x" "wrapped 5 y = y"
        by (simp_all add: wrapped_def is_valid_def in_range_def)
      with v u[of "(x, y)" "(x', y')"] show ?thesis
        unfolding Pair stored_getitem[OF s b] by auto
    qed
  qed
  moreover have "at_most_once (stored w (x, y) None)"
    using stored_at_most_once[OF s a b] by simp
  ultimately show ?thesis
    using r stored_shape[OF s] by simp
qed

text \<open>
  C2 (as amended). From a table of the constructor's shape in which every object is in
  at most one cell, \<open>remove\<close> and \<open>move\<close> always leave such a table, whether they return
  or raise. \<^verbatim>\<open>__setitem__\<close> leaves such a table when the value is none or the object
  is in no cell other than the one written (the cell Python's indexing selects), and
  \<open>add\<close> when the object is in no cell other than the one its attributes select.
\<close>

theorem mutations_keep_at_most_once:
  "grid_shape w \<Longrightarrow> at_most_once w \<Longrightarrow>
   at_most_once (final (remove w obj)) \<and>
   at_most_once (final (move w obj x y)) \<and>
   (v = None \<or> (\<forall>c. getitem w c = Inr v \<longrightarrow> c = (wrapped 9 x, wrapped 5 y)) \<longrightarrow>
      at_most_once (final (setitem w (x, y) v))) \<and>
   ((\<forall>c. getitem w c = Inr (Some obj) \<longrightarrow>
          c = (wrapped 9 (obj_x (objs w obj)), wrapped 5 (obj_y (objs w obj)))) \<longrightarrow>
      at_most_once (final (add w obj)))"
proof (intro conjI impI)
  assume s: "grid_shape w" and a: "at_most_once w"
  obtain w' where r: "remove w obj = Inr w'" "grid_shape w'" "at_most_once w'"
    "\<forall>c. getitem w' c \<noteq> Inr (Some obj)"
    using remove_effect[OF s a, of obj] by blast
  show "at_most_once (final (remove w obj))"
    using r by (simp add: final_def)
  have set_ok: "at_most_once (final (setitem u (p, q) t))"
    if "grid_shape u" "at_most_once u"
       "t = None \<or> (\<forall>c. getitem u c = Inr t \<longrightarrow> c = (wrapped 9 p, wrapped 5 q))"
    for u p q t
  proof (cases "- 9 \<le> p \<and> p < 9 \<and> - 5 \<le> q \<and> q < 5")
    case True
    then show ?thesis
      using that stored_at_most_once[of u p q t] by (simp add: setitem_in final_def)
  next
    case False
    then have "setitem u (p, q) t = Inl (IndexError, u)"
      using that(1) by (intro setitem_out) auto
    then show ?thesis using that(2) by (simp add: final_def)
  qed
  show "at_most_once (final (move w obj x y))"
    using set_ok[OF r(2) r(3), of "Some obj" x y] r(1) r(4) by (simp add: move_def)
  show "at_most_once (final (setitem w (x, y) v))"
    if "v = None \<or> (\<forall>c. getitem w c = Inr v \<longrightarrow> c = (wrapped 9 x, wrapped 5 y))"
    using set_ok[OF s a that] .
  show "at_most_once (final (add w obj))"
    if "\<forall>c. getitem w c = Inr (Some obj) \<longrightarrow>
          c = (wrapped 9 (obj_x (objs w obj)), wrapped 5 (obj_y (objs w obj)))"
    using set_ok[OF s a, of "Some obj" "obj_x (objs w obj)" "obj_y (objs w obj)"] that
    by (simp add: add_def)
qed

theorem mutations_keep_at_most_once_witness:
  "grid_shape board_corner \<and> at_most_once board_corner \<and>
   at_most_once (final (remove board_corner 50)) \<and>
   at_most_once (final (move board_corner 50 2 3)) \<and>
   at_most_once (final (setitem board_corner (2, 3) None)) \<and>
   at_most_once (final (setitem board_corner (8, 4) (Some 50))) \<and>
   at_most_once (final (add board_corner 50))"
proof -
  have a: "at_most_once board_corner" by code_simp
  have g: "getitem board_corner (8, 4) = Inr (Some 50)" by code_simp
  have u: "\<forall>c. getitem board_corner c = Inr (Some 50) \<longrightarrow> c = (8, 4)"
    using a g at_most_once_iff[OF grid_shape_board_corner] by blast
  have o: "obj_x (objs board_corner 50) = 8" "obj_y (objs board_corner 50) = 4"
    by (simp_all add: board_corner_def)
  show ?thesis
    using mutations_keep_at_most_once [OF grid_shape_board_corner a, of 50 2 3 None]
      mutations_keep_at_most_once [OF grid_shape_board_corner a, of 50 8 4 "Some 50"]
      grid_shape_board_corner a u o
    by (simp add: wrapped_def)
qed

text \<open>
  The claim as stated fails for \<^verbatim>\<open>__setitem__\<close>: on \<open>board_corner\<close>, where object
  50 is in cell \<open>(8, 4)\<close> only, storing 50 at \<open>(0, 0)\<close> returns and leaves 50 in both
  cells.
\<close>

theorem setitem_duplicates_occupant:
  "grid_shape board_corner \<and> at_most_once board_corner \<and>
   raised (setitem board_corner (0, 0) (Some 50)) = None \<and>
   getitem (final (setitem board_corner (0, 0) (Some 50))) (0, 0) = Inr (Some 50) \<and>
   getitem (final (setitem board_corner (0, 0) (Some 50))) (8, 4) = Inr (Some 50) \<and>
   \<not> at_most_once (final (setitem board_corner (0, 0) (Some 50)))"
  by code_simp


section \<open>Spawn search\<close>

lemma random_choice_x: "random_choice (fst enemy_spawns) r \<in> {6, 7, 8}"
proof -
  have "r mod 3 = 0 \<or> r mod 3 = 1 \<or> r mod 3 = 2" by arith
  then show ?thesis
    by (auto simp: random_choice_def enemy_spawns_def py_range_def)
qed

lemma random_choice_y: "random_choice (snd enemy_spawns) r \<in> {0, 1, 2, 3, 4}"
proof -
  have "r mod 5 = 0 \<or> r mod 5 = 1 \<or> r mod 5 = 2 \<or> r mod 5 = 3 \<or> r mod 5 = 4" by arith
  then show ?thesis
    by (auto simp: random_choice_def enemy_spawns_def py_range_def)
qed

lemma candidate_in_zone: "candidate rng k \<in> set spawn_zone"
  using random_choice_x[of "rng !! (2 * k)"] random_choice_y[of "rng !! (2 * k + 1)"]
  by (auto simp: candidate_def spawn_zone_def)

lemma spawn_zone_valid: "(x, y) \<in> set spawn_zone \<Longrightarrow> is_valid x y"
  by (auto simp: spawn_zone_def is_valid_def in_range_def)

lemma candidate_shift: "candidate (stl (stl rng)) k = candidate rng (Suc k)"
  by (simp add: candidate_def)

lemma loop_step:
  assumes "grid_shape w"
  shows "enemy_spawn_loop w (Suc n) rng =
         (if getitem w (candidate rng 0) = Inr None then Inr (candidate rng 0, stl (stl rng))
          else enemy_spawn_loop w n (stl (stl rng)))"
proof -
  obtain x y where c: "candidate rng 0 = (x, y)" by (cases "candidate rng 0")
  then have "is_valid x y"
    using candidate_in_zone[of rng 0] by (simp add: spawn_zone_valid)
  moreover have "x = random_choice (fst enemy_spawns) (shd rng)"
    "y = random_choice (snd enemy_spawns) (shd (stl rng))"
    using c by (simp_all add: candidate_def)
  ultimately show ?thesis
    by (simp add: c can_move_shape[OF assms] Let_def)
qed

lemma loop_found:
  "grid_shape w \<Longrightarrow> k < n \<Longrightarrow> \<forall>j<k. getitem w (candidate rng j) \<noteq> Inr None \<Longrightarrow>
   getitem w (candidate rng k) = Inr None \<Longrightarrow>
   enemy_spawn_loop w n rng = Inr (candidate rng k, sdrop (2 * Suc k) rng)"
proof (induction n arbitrary: rng k)
  case 0
  then show ?case by simp
next
  case (Suc n)
  show ?case
  proof (cases k)
    case 0
    with Suc.prems show ?thesis
      by (simp add: loop_step numeral_2_eq_2 del: enemy_spawn_loop.simps)
  next
    case (Suc k')
    with Suc.prems have "getitem w (candidate rng 0) \<noteq> Inr None" by simp
    moreover have "enemy_spawn_loop w n (stl (stl rng)) =
        Inr (candidate (stl (stl rng)) k', sdrop (2 * Suc k') (stl (stl rng)))"
      using Suc.prems \<open>k = Suc k'\<close>
      by (intro Suc.IH) (auto simp: candidate_shift)
    ultimately show ?thesis
      using Suc.prems(1) \<open>k = Suc k'\<close>
      by (simp add: loop_step candidate_shift del: enemy_spawn_loop.simps)
  qed
qed

lemma loop_exhausted:
  "grid_shape w \<Longrightarrow> \<forall>j<n. getitem w (candidate rng j) \<noteq> Inr None \<Longrightarrow>
   enemy_spawn_loop w n rng = Inr ((- 1, - 1), sdrop (2 * n) rng)"
proof (induction n arbitrary: rng)
  case 0
  then show ?case by simp
next
  case (Suc n)
  then have "getitem w (candidate rng 0) \<noteq> Inr None" by simp
  moreover have "enemy_spawn_loop w n (stl (stl rng)) = Inr ((- 1, - 1), sdrop (2 * n) (stl (stl rng)))"
    using Suc.prems by (intro Suc.IH) (auto simp: candidate_shift)
  ultimately show ?case
    using Suc.prems(1) by (simp add: loop_step del: enemy_spawn_loop.simps)
qed

text \<open>
  C5. For every random source and every \<open>max_attempts\<close>, on a table of the
  constructor's shape: every candidate drawn has \<open>x\<close> in 6..8 and \<open>y\<close> in 0..4;
  when the \<open>k\<close>-th candidate is the first whose cell is empty and \<open>k\<close> is below
  \<open>max_attempts\<close>, the function returns that candidate, having consumed the random
  numbers of \<open>k + 1\<close> draws; when none of the first \<open>max_attempts\<close> candidates has an
  empty cell, it returns the sentinel \<open>(-1, -1)\<close>, having consumed the random numbers
  of exactly \<open>max_attempts\<close> draws (none for a negative \<open>max_attempts\<close>, for which
  \<^verbatim>\<open>range\<close> is empty); and this is the case whenever all 15 cells of the spawn
  zone are occupied.
\<close>

theorem enemy_spawn_location_first_empty:
  "grid_shape w \<Longrightarrow>
   (\<forall>k. 6 \<le> fst (candidate rng k) \<and> fst (candidate rng k) \<le> 8 \<and>
        0 \<le> snd (candidate rng k) \<and> snd (candidate rng k) \<le> 4) \<and>
   (\<forall>k<nat max_attempts.
      (\<forall>j<k. getitem w (candidate rng j) \<noteq> Inr None) \<and> getitem w (candidate rng k) = Inr None \<longrightarrow>
      enemy_spawn_location w max_attempts rng = Inr (candidate rng k, sdrop (2 * (k + 1)) rng)) \<and>
   ((\<forall>k<nat max_attempts. getitem w (candidate rng k) \<noteq> Inr None) \<longrightarrow>
      enemy_spawn_location w max_attempts rng = Inr ((- 1, - 1), sdrop (2 * nat max_attempts) rng)) \<and>
   (list_all (\<lambda>c. getitem w c \<noteq> Inr None) spawn_zone \<longrightarrow>
      enemy_spawn_location w max_attempts rng = Inr ((- 1, - 1), sdrop (2 * nat max_attempts) rng))"
proof (intro conjI allI impI)
  assume s: "grid_shape w"
  fix k
  have z: "candidate rng k \<in> set spawn_zone" by (rule candidate_in_zone)
  then show "6 \<le> fst (candidate rng k)" "fst (candidate rng k) \<le> 8"
    "0 \<le> snd (candidate rng k)" "snd (candidate rng k) \<le> 4"
    by (auto simp: spawn_zone_def)
  show "enemy_spawn_location w max_attempts rng = Inr (candidate rng k, sdrop (2 * (k + 1)) rng)"
    if "k < nat max_attempts"
      "(\<forall>j<k. getitem w (candidate rng j) \<noteq> Inr None) \<and> getitem w (candidate rng k) = Inr None"
    using loop_found[OF s that(1), of rng] that(2) by (simp add: enemy_spawn_location_def)
next
  assume s: "grid_shape w"
  show "enemy_spawn_location w max_attempts rng = Inr ((- 1, - 1), sdrop (2 * nat max_attempts) rng)"
    if "\<forall>k<nat max_attempts. getitem w (candidate rng k) \<noteq> Inr None"
    using loop_exhausted[OF s that] by (simp add: enemy_spawn_location_def)
  show "enemy_spawn_location w max_attempts rng = Inr ((- 1, - 1), sdrop (2 * nat max_attempts) rng)"
    if "list_all (\<lambda>c. getitem w c \<noteq> Inr None) spawn_zone"
  proof -
    have "\<forall>k<nat max_attempts. getitem w (candidate rng k) \<noteq> Inr None"
      using that candidate_in_zone by (auto simp: list_all_iff)
    then show ?thesis
      using loop_exhausted[OF s] by (simp add: enemy_spawn_location_def)
  qed
qed


theorem enemy_spawn_location_first_empty_witness:
  "grid_shape board_full \<and> grid_shape board_corner \<and>
   fst (candidate (sconst 4) 0) = 7 \<and> snd (candidate (sconst 4) 0) = 4 \<and>
   enemy_spawn_location board_corner 3 (sconst 4) = Inr ((7, 4), sconst 4) \<and>
   enemy_spawn_location board_full 3 (sconst 4) = Inr ((- 1, - 1), sconst 4)"
proof -
  have s: "grid_shape board_full" by code_simp
  have f: "list_all (\<lambda>c. getitem board_full c \<noteq> Inr None) spawn_zone" by code_simp
  have c: "candidate (sconst 4) 0 = (7, 4)"
    by (simp add: candidate_def random_choice_def enemy_spawns_def py_range_def)
  have g: "getitem board_corner (7, 4) = Inr None" by code_simp
  have d: "sdrop n (sconst (4::nat)) = sconst 4" for n by (induction n) simp_all
  have full: "enemy_spawn_location board_full 3 (sconst 4) = Inr ((- 1, - 1), sconst 4)"
    using enemy_spawn_location_first_empty [OF s, of "sconst 4" 3] f d by simp
  have "(0::nat) < nat 3 \<Longrightarrow>
      (\<forall>j<0. getitem board_corner (candidate (sconst 4) j) \<noteq> Inr None) \<and>
      getitem board_corner (candidate (sconst 4) 0) = Inr None \<Longrightarrow>
      enemy_spawn_location board_corner 3 (sconst 4) =
      Inr (candidate (sconst 4) 0, sdrop (2 * (0 + 1)) (sconst 4))"
    using enemy_spawn_location_first_empty [OF grid_shape_board_corner, of "sconst 4" 3]
    by blast
  then have found: "enemy_spawn_location board_corner 3 (sconst 4) = Inr ((7, 4), sconst 4)"
    using c g d by simp
  show ?thesis
    using s grid_shape_board_corner c full found by simp
qed


section \<open>Moving an object\<close>

text \<open>
  C3 (as amended). \<open>move\<close> makes no bounds or occupancy check of its own. For a
  destination with \<open>-9 \<le> x \<le> 8\<close> and \<open>-5 \<le> y \<le> 4\<close> it returns: the object is in
  the cell Python's indexing selects (a negative \<open>x\<close> or \<open>y\<close> counts from the end of
  the table), whatever that cell held, and the object's attributes are \<open>x\<close> and \<open>y\<close> as
  given. For every other destination it raises \<^verbatim>\<open>IndexError\<close>, and the world it
  leaves is the one after the removal.
\<close>

theorem move_unchecked:
  "grid_shape w \<Longrightarrow>
   (- 9 \<le> x \<and> x \<le> 8 \<and> - 5 \<le> y \<and> y \<le> 4 \<longrightarrow>
      (\<exists>w'. move w obj x y = Inr w' \<and>
            getitem w' (wrapped 9 x, wrapped 5 y) = Inr (Some obj) \<and>
            obj_x (objs w' obj) = x \<and> obj_y (objs w' obj) = y)) \<and>
   (x < - 9 \<or> 8 < x \<or> y < - 5 \<or> 4 < y \<longrightarrow>
      (\<exists>w'. remove w obj = Inr w' \<and> move w obj x y = Inl (IndexError, w')))"
proof (intro conjI impI)
  assume s: "grid_shape w"
  obtain p q where r: "remove w obj = Inr (stored w (p, q) None)"
    using remove_stored[OF s, of obj] by blast
  have s': "grid_shape (stored w (p, q) None)" by (rule stored_shape[OF s])
  show "\<exists>w'. move w obj x y = Inr w' \<and>
            getitem w' (wrapped 9 x, wrapped 5 y) = Inr (Some obj) \<and>
            obj_x (objs w' obj) = x \<and> obj_y (objs w' obj) = y"
    if "- 9 \<le> x \<and> x \<le> 8 \<and> - 5 \<le> y \<and> y \<le> 4"
    using that by (simp add: move_def r setitem_in[OF s'] stored_getitem[OF s'] stored_objs)
  show "\<exists>w'. remove w obj = Inr w' \<and> move w obj x y = Inl (IndexError, w')"
    if "x < - 9 \<or> 8 < x \<or> y < - 5 \<or> 4 < y"
  proof -
    have "setitem (stored w (p, q) None) (x, y) (Some obj) = Inl (IndexError, stored w (p, q) None)"
      using that by (intro setitem_out[OF s']) auto
    then show ?thesis by (simp add: move_def r)
  qed
qed

theorem move_unchecked_witness:
  "grid_shape board_corner \<and>
   (\<exists>w'. move board_corner 50 (- 1) 2 = Inr w' \<and> getitem w' (8, 2) = Inr (Some 50) \<and>
         obj_x (objs w' 50) = - 1 \<and> obj_y (objs w' 50) = 2) \<and>
   (\<exists>w'. remove board_corner 50 = Inr w' \<and> move board_corner 50 9 0 = Inl (IndexError, w'))"
  using move_unchecked [OF grid_shape_board_corner, of "- 1" 2 50]
    move_unchecked [OF grid_shape_board_corner, of 9 0 50] grid_shape_board_corner
  by (simp add: wrapped_def)

text \<open>
  The claim as stated fails: on \<open>board_corner\<close>, moving object 50 to \<open>(9, 0)\<close> raises
  \<^verbatim>\<open>IndexError\<close>, and the object is then in no cell.
\<close>

theorem move_out_of_range_raises:
  "getitem board_corner (8, 4) = Inr (Some 50) \<and>
   raised (move board_corner 50 9 0) = Some IndexError \<and>
   coordinates (final (move board_corner 50 9 0)) 50 = Inr (- 1, - 1)"
  by code_simp

section \<open>Neighbourhoods\<close>

lemma surrounding_ys_map:
  "surrounding_ys w cx cy x ys =
   map (\<lambda>c. get_tile w (fst c) (snd c))
     (filter (\<lambda>c. is_valid (fst c) (snd c) \<and> c \<noteq> (cx, cy)) (map (Pair x) ys))"
  by (induction ys) auto

lemma surrounding_xs_map:
  "surrounding_xs w cx cy ys xs =
   map (\<lambda>c. get_tile w (fst c) (snd c))
     (filter (\<lambda>c. is_valid (fst c) (snd c) \<and> c \<noteq> (cx, cy)) (List.product xs ys))"
  by (induction xs) (simp_all add: surrounding_ys_map)

lemma surrounding_tiles_map:
  "surrounding_tiles w cx cy d =
   map (\<lambda>c. get_tile w (fst c) (snd c))
     (filter (\<lambda>c. is_valid (fst c) (snd c) \<and> c \<noteq> (cx, cy)) (square cx cy d))"
  by (simp add: surrounding_tiles_def surrounding_xs_map square_def py_range_def Let_def)

lemma get_tile_coordinates:
  "get_tile w x y = Some tile \<Longrightarrow> obj_x (objs w tile) = x \<and> obj_y (objs w tile) = y"
  by (auto simp: get_tile_def find_Some_iff)

lemma tile_coordinates_populated:
  assumes "tiles_populated w" "\<forall>c\<in>set cs. is_valid (fst c) (snd c)"
  shows "tile_coordinates w (map (\<lambda>c. get_tile w (fst c) (snd c)) cs) = map Some cs"
  using assms(2)
proof (induction cs)
  case Nil
  then show ?case by (simp add: tile_coordinates_def)
next
  case (Cons c cs)
  then have "c \<in> set all_coordinates" by (cases c) (simp add: set_all_coordinates)
  then obtain tile where t: "get_tile w (fst c) (snd c) = Some tile"
    using assms(1) by (auto simp: tiles_populated_def list_all_iff)
  from get_tile_coordinates[OF t] t Cons show ?case
    by (simp add: tile_coordinates_def)
qed

text \<open>
  C6. \<open>surrounding_tiles\<close> yields one tile lookup for each coordinate of the square
  \<open>[cx - d, cx + d] \<times> [cy - d, cy + d]\<close>, taken in row-major order (\<open>x\<close> outer, \<open>y\<close>
  inner), that is valid (\<open>x\<close> in 0..8, \<open>y\<close> in 0..4) and differs from the centre, and
  for no other. When every coordinate of the table has a tile, the yielded tiles
  carry exactly these coordinates, in this order; for centre \<open>(4, 2)\<close> and distance 1
  they are \<open>(3,1), (3,2), (3,3), (4,1), (4,3), (5,1), (5,2), (5,3)\<close>. This holds for
  every distance (the square is empty when \<open>d < 0\<close>).
\<close>

theorem surrounding_tiles_square:
  "surrounding_tiles w cx cy d =
     map (\<lambda>(x, y). get_tile w x y)
       (filter (\<lambda>(x, y). (0 \<le> x \<and> x \<le> 8 \<and> 0 \<le> y \<and> y \<le> 4) \<and> (x, y) \<noteq> (cx, cy))
          (square cx cy d)) \<and>
   (tiles_populated w \<longrightarrow>
      tile_coordinates w (surrounding_tiles w cx cy d) =
        map Some (filter (\<lambda>(x, y). (0 \<le> x \<and> x \<le> 8 \<and> 0 \<le> y \<and> y \<le> 4) \<and> (x, y) \<noteq> (cx, cy))
                    (square cx cy d)) \<and>
      tile_coordinates w (surrounding_tiles w 4 2 1) =
        map Some [(3, 1), (3, 2), (3, 3), (4, 1), (4, 3), (5, 1), (5, 2), (5, 3)])"
proof (intro conjI impI)
  have f: "(\<lambda>c. is_valid (fst c) (snd c) \<and> c \<noteq> (cx, cy)) =
           (\<lambda>(x, y). (0 \<le> x \<and> x \<le> 8 \<and> 0 \<le> y \<and> y \<le> 4) \<and> (x, y) \<noteq> (cx, cy))" for cx cy
    by (auto simp: is_valid_def in_range_def)
  have m: "(\<lambda>c. get_tile w (fst c) (snd c)) = (\<lambda>(x, y). get_tile w x y)"
    by auto
  show "surrounding_tiles w cx cy d =
     map (\<lambda>(x, y). get_tile w x y)
       (filter (\<lambda>(x, y). (0 \<le> x \<and> x \<le> 8 \<and> 0 \<le> y \<and> y \<le> 4) \<and> (x, y) \<noteq> (cx, cy))
          (square cx cy d))"
    by (simp only: surrounding_tiles_map f m)
  assume p: "tiles_populated w"
  have g: "tile_coordinates w (surrounding_tiles w cx cy d) =
     map Some (filter (\<lambda>(x, y). (0 \<le> x \<and> x \<le> 8 \<and> 0 \<le> y \<and> y \<le> 4) \<and> (x, y) \<noteq> (cx, cy))
                 (square cx cy d))" for cx cy d
    unfolding surrounding_tiles_map f[symmetric]
    by (rule tile_coordinates_populated[OF p]) simp
  have e: "filter (\<lambda>(x, y). (0 \<le> x \<and> x \<le> 8 \<and> 0 \<le> y \<and> y \<le> 4) \<and> (x, y) \<noteq> (4, 2))
             (square 4 2 1) =
           [(3, 1), (3, 2), (3, 3), (4, 1), (4, 3), (5, 1), (5, 2), (5, 3)]"
    by code_simp
  show "tile_coordinates w (surrounding_tiles w cx cy d) =
     map Some (filter (\<lambda>(x, y). (0 \<le> x \<and> x \<le> 8 \<and> 0 \<le> y \<and> y \<le> 4) \<and> (x, y) \<noteq> (cx, cy))
                 (square cx cy d))"
    by (rule g)
  show "tile_coordinates w (surrounding_tiles w 4 2 1) =
     map Some [(3, 1), (3, 2), (3, 3), (4, 1), (4, 3), (5, 1), (5, 2), (5, 3)]"
    using g[of 4 2 1] e by simp
qed

lemma tiles_populated_empty_board: "tiles_populated empty_board"
  by code_simp

theorem surrounding_tiles_square_witness:
  "tiles_populated empty_board \<and>
   surrounding_tiles empty_board 0 0 1 = [Some 1, Some 5, Some 6] \<and>
   tile_coordinates empty_board (surrounding_tiles empty_board 0 0 1) =
     [Some (0, 1), Some (1, 0), Some (1, 1)] \<and>
   tile_coordinates empty_board (surrounding_tiles empty_board 4 2 1) =
     map Some [(3, 1), (3, 2), (3, 3), (4, 1), (4, 3), (5, 1), (5, 2), (5, 3)]"
proof -
  have e: "filter (\<lambda>(x, y). (0 \<le> x \<and> x \<le> 8 \<and> 0 \<le> y \<and> y \<le> 4) \<and> (x, y) \<noteq> (0, 0))
             (square 0 0 1) =
           [(0, 1), (1, 0), (1, 1)]"
    by code_simp
  have t: "map (\<lambda>(x, y). get_tile empty_board x y) [(0, 1), (1, 0), (1, 1)] =
           [Some 1, Some 5, Some 6]"
    by code_simp
  note s = surrounding_tiles_square [of empty_board 0 0 1]
  have a: "surrounding_tiles empty_board 0 0 1 = [Some 1, Some 5, Some 6]"
    using s [THEN conjunct1] e t by simp
  have b: "tile_coordinates empty_board (surrounding_tiles empty_board 0 0 1) =
             [Some (0, 1), Some (1, 0), Some (1, 1)]"
    using s [THEN conjunct2] e tiles_populated_empty_board by simp
  have c: "tile_coordinates empty_board (surrounding_tiles empty_board 4 2 1) =
             map Some [(3, 1), (3, 2), (3, 3), (4, 1), (4, 3), (5, 1), (5, 2), (5, 3)]"
    using s [THEN conjunct2] tiles_populated_empty_board by simp
  show ?thesis
    using a b c tiles_populated_empty_board by simp
qed

section \<open>Reads outside the table\<close>

text \<open>
  C9. For every board state and every coordinate with \<open>x < 0\<close>, \<open>x > 8\<close>, \<open>y < 0\<close> or
  \<open>y > 4\<close>, the read \<open>at(x, y)\<close> does not fail and returns none, whatever the table
  holds (no assumption on the table, not even on its shape).
\<close>

theorem getitem_out_of_range:
  "x < 0 \<or> x > 8 \<or> y < 0 \<or> y > 4 \<Longrightarrow> getitem w (x, y) = Inr None"
  by (auto simp: getitem_def is_valid_def in_range_def)

theorem getitem_out_of_range_witness:
  "((9::int) < 0 \<or> (9::int) > 8 \<or> (0::int) < 0 \<or> (0::int) > 4) \<and>
   getitem (init (\<lambda>r. \<lparr>obj_x = 0, obj_y = 0\<rparr>)) (9, 0) = Inr None"
  using getitem_out_of_range [of 9 0 "init (\<lambda>r. \<lparr>obj_x = 0, obj_y = 0\<rparr>)"] by simp

end
